theory Spec2Isabelle
  imports Complex_Main
begin

section \<open>Documents of the ecommerce store\<close>

text \<open>
  The service of \<^verbatim>\<open>main.py\<close> keeps two collections, \<^verbatim>\<open>products\<close> and
  \<^verbatim>\<open>orders\<close>, in a document store. A document identifier (\<^verbatim>\<open>_id\<close>) is a typed
  value: the driver assigns an \<^verbatim>\<open>ObjectId\<close> on \<^verbatim>\<open>insert_one\<close>, while a document written
  with an identifier of its own may carry a string. The store compares values by type
  and content, so a string never equals an \<^verbatim>\<open>ObjectId\<close>, whatever their text.
  An \<^verbatim>\<open>ObjectId\<close> is represented by the text \<^verbatim>\<open>str\<close> renders it as (24 hex digits).
\<close>

datatype object_id = ObjectId string

datatype bson_id = IdStr string | IdOid object_id

text \<open>\<^verbatim>\<open>str(x)\<close> of Python on an identifier (lines 64, 85, 104, 141, 143).\<close>

fun py_str :: "bson_id \<Rightarrow> string" where
  "py_str (IdStr s) = s"
| "py_str (IdOid (ObjectId h)) = h"

text \<open>
  The request models (lines 26-44): \<^verbatim>\<open>Size\<close>, \<^verbatim>\<open>Product\<close>, \<^verbatim>\<open>OrderItem\<close>, \<^verbatim>\<open>Order\<close>.
  A \<^verbatim>\<open>float\<close> is read as the real number it stands for. The arithmetic of the store
  on such values rounds to IEEE doubles; the model's arithmetic is exact, so a \<^verbatim>\<open>total\<close>
  of the model is the total of the store only where the products and their sum are
  exact in doubles, as they are for small whole numbers. No theorem below states the
  value of a \<^verbatim>\<open>total\<close> elsewhere.
\<close>

record size_doc =
  sz_size :: string
  sz_quantity :: int

record product_model =
  pr_name :: string
  pr_price :: real
  pr_sizes :: "size_doc list"

record order_item_model =
  oi_productId :: string
  oi_qty :: int

record order_model =
  or_userId :: string
  or_items :: "order_item_model list"

text \<open>
  Stored documents. A stored product is the dictionary of a \<^verbatim>\<open>Product\<close> with the \<^verbatim>\<open>_id\<close>
  that \<^verbatim>\<open>insert_one\<close> adds. A stored order has \<^verbatim>\<open>_id\<close>, \<^verbatim>\<open>userId\<close> and \<^verbatim>\<open>items\<close>; the
  type of \<^verbatim>\<open>items\<close> is a parameter, because the stages of the aggregation pipeline
  replace the array by one of its elements. \<^verbatim>\<open>$lookup\<close> adds the field
  \<^verbatim>\<open>productDetails\<close> to an item; its type is a parameter for the same reason.
\<close>

record product_doc = product_model +
  p_id :: bson_id

record order_item =
  productId :: bson_id
  qty :: int

record 'd joined_item = order_item +
  productDetails :: 'd

record 'i order_doc =
  o_id :: bson_id
  o_userId :: string
  o_items :: 'i

record store =
  products :: "product_doc list"
  orders :: "order_item list order_doc list"

text \<open>The output documents of \<^verbatim>\<open>$group\<close> (lines 127-133): \<^verbatim>\<open>_id\<close>, \<^verbatim>\<open>items\<close>, \<^verbatim>\<open>total\<close>.\<close>

record grouped =
  g_id :: bson_id
  g_items :: "product_doc joined_item list"
  g_total :: real

text \<open>
  What the driver hands to Python is a dictionary, which lines 84-85 and 140-144
  mutate: keys are popped, deleted and added. A dictionary over a known set of keys is
  a record whose optional keys have an option type, \<open>None\<close> for an absent key.
  \<open>pd_oid\<close> and \<open>od_oid\<close> are the key \<^verbatim>\<open>_id\<close>, \<open>pd_id\<close> and \<open>od_id\<close> the key \<^verbatim>\<open>id\<close>.
\<close>

record product_dict =
  pd_oid :: "bson_id option"
  pd_id :: "string option"
  pd_name :: string
  pd_price :: real
  pd_sizes :: "size_doc list option"

record order_dict =
  od_oid :: "bson_id option"
  od_id :: "string option"
  od_items :: "product_dict joined_item list"
  od_total :: real

record page =
  page_next :: int
  page_limit :: int
  page_previous :: int

record 'a response =
  data :: "'a list"
  page :: page

datatype error = RequestValidationError | KeyError string | RegexError

section \<open>The stages of the aggregation pipeline\<close>

text \<open>
  Lines 115-136 hand the store a pipeline of seven stages. Each stage is a function
  from the list of documents it receives to the list it emits, as the store documents
  the operator. The collection is a list in the order the store scans it.
\<close>

text \<open>\<^verbatim>\<open>{"$match": {"userId": user_id}}\<close>: the documents whose \<^verbatim>\<open>userId\<close> equals the text.\<close>

definition match_userId ::
    "string \<Rightarrow> order_item list order_doc list \<Rightarrow> order_item list order_doc list" where
  "match_userId user_id docs = filter (\<lambda>d. o_userId d = user_id) docs"

text \<open>
  \<^verbatim>\<open>{"$unwind": "$items"}\<close>: one output document per element of the array, with the
  array replaced by the element; a document with an empty array emits nothing.
\<close>

definition unwind_one :: "order_item list order_doc \<Rightarrow> order_item order_doc list" where
  "unwind_one d =
     map (\<lambda>it. \<lparr>o_id = o_id d, o_userId = o_userId d, o_items = it\<rparr>) (o_items d)"

fun unwind_items :: "order_item list order_doc list \<Rightarrow> order_item order_doc list" where
  "unwind_items [] = []"
| "unwind_items (d # ds) = unwind_one d @ unwind_items ds"

text \<open>
  \<^verbatim>\<open>$lookup\<close> from \<^verbatim>\<open>products\<close> with \<^verbatim>\<open>localField: items.productId\<close>,
  \<^verbatim>\<open>foreignField: _id\<close>, \<^verbatim>\<open>as: items.productDetails\<close>: every document gets the array
  of the products whose \<^verbatim>\<open>_id\<close> equals its \<^verbatim>\<open>items.productId\<close>.
\<close>

definition lookup_one ::
    "product_doc list \<Rightarrow> order_item order_doc \<Rightarrow> product_doc list joined_item order_doc" where
  "lookup_one prods r =
     \<lparr>o_id = o_id r, o_userId = o_userId r,
      o_items = \<lparr>productId = productId (o_items r), qty = qty (o_items r),
                 productDetails = filter (\<lambda>p. p_id p = productId (o_items r)) prods\<rparr>\<rparr>"

definition lookup_products ::
    "product_doc list \<Rightarrow> order_item order_doc list \<Rightarrow>
     product_doc list joined_item order_doc list" where
  "lookup_products prods rows = map (lookup_one prods) rows"

text \<open>
  \<^verbatim>\<open>{"$unwind": "$items.productDetails"}\<close>: one output document per looked-up product;
  a document whose array is empty emits nothing (neither
  \<^verbatim>\<open>preserveNullAndEmptyArrays\<close> nor any other option is set).
\<close>

definition unwind_details_one ::
    "product_doc list joined_item order_doc \<Rightarrow> product_doc joined_item order_doc list" where
  "unwind_details_one r =
     map (\<lambda>p. \<lparr>o_id = o_id r, o_userId = o_userId r,
                o_items = \<lparr>productId = productId (o_items r), qty = qty (o_items r),
                           productDetails = p\<rparr>\<rparr>)
         (productDetails (o_items r))"

fun unwind_productDetails ::
    "product_doc list joined_item order_doc list \<Rightarrow> product_doc joined_item order_doc list" where
  "unwind_productDetails [] = []"
| "unwind_productDetails (r # rs) = unwind_details_one r @ unwind_productDetails rs"

text \<open>
  \<^verbatim>\<open>$group\<close> by \<^verbatim>\<open>_id\<close> with the accumulators \<^verbatim>\<open>items: {$push: $items}\<close> and
  \<^verbatim>\<open>total: {$sum: {$multiply: [$items.qty, $items.productDetails.price]}}\<close>. The stage
  reads its input one document at a time: a document whose key has a group pushes its
  item on that group and adds its product to the group's sum, a document with a new key
  opens a group. A group exists only for a key that some input document has. The store
  leaves the order of the groups open; the model emits them in the order their keys
  first occur. \<^verbatim>\<open>$multiply\<close> and \<^verbatim>\<open>$sum\<close> are the exact product and sum (see the note on
  \<^verbatim>\<open>float\<close> above).
\<close>

definition line_total :: "product_doc joined_item \<Rightarrow> real" where
  "line_total it = real_of_int (qty it) * pr_price (productDetails it)"

fun push_group :: "product_doc joined_item order_doc \<Rightarrow> grouped list \<Rightarrow> grouped list" where
  "push_group r [] =
     [\<lparr>g_id = o_id r, g_items = [o_items r], g_total = 0 + line_total (o_items r)\<rparr>]"
| "push_group r (g # gs) =
     (if g_id g = o_id r
      then g\<lparr>g_items := g_items g @ [o_items r],
             g_total := g_total g + line_total (o_items r)\<rparr> # gs
      else g # push_group r gs)"

definition group_by_id :: "product_doc joined_item order_doc list \<Rightarrow> grouped list" where
  "group_by_id rows = foldl (\<lambda>gs r. push_group r gs) [] rows"

text \<open>\<^verbatim>\<open>{"$skip": offset}\<close> and \<^verbatim>\<open>{"$limit": limit}\<close>.\<close>

definition skip_stage :: "int \<Rightarrow> 'a list \<Rightarrow> 'a list" where
  "skip_stage offset docs = drop (nat offset) docs"

definition limit_stage :: "int \<Rightarrow> 'a list \<Rightarrow> 'a list" where
  "limit_stage limit docs = take (nat limit) docs"

text \<open>The rows that reach \<^verbatim>\<open>$group\<close>, the groups, and the whole pipeline of line 138.\<close>

definition joined_rows :: "store \<Rightarrow> string \<Rightarrow> product_doc joined_item order_doc list" where
  "joined_rows st user_id =
     unwind_productDetails
       (lookup_products (products st) (unwind_items (match_userId user_id (orders st))))"

definition user_groups :: "store \<Rightarrow> string \<Rightarrow> grouped list" where
  "user_groups st user_id = group_by_id (joined_rows st user_id)"

definition aggregate :: "store \<Rightarrow> string \<Rightarrow> int \<Rightarrow> int \<Rightarrow> grouped list" where
  "aggregate st user_id limit offset =
     limit_stage limit (skip_stage offset (user_groups st user_id))"

section \<open>The handlers\<close>

text \<open>
  The driver yields each output document as a dictionary with the keys the document
  has: a group has \<^verbatim>\<open>_id\<close>, \<^verbatim>\<open>items\<close>, \<^verbatim>\<open>total\<close>, and no \<^verbatim>\<open>id\<close>; a product has all the
  stored fields, unless a projection excludes one.
\<close>

definition product_to_dict :: "product_doc \<Rightarrow> product_dict" where
  "product_to_dict p =
     \<lparr>pd_oid = Some (p_id p), pd_id = None, pd_name = pr_name p, pd_price = pr_price p,
      pd_sizes = Some (pr_sizes p)\<rparr>"

definition item_to_dict :: "product_doc joined_item \<Rightarrow> product_dict joined_item" where
  "item_to_dict it =
     \<lparr>productId = productId it, qty = qty it,
      productDetails = product_to_dict (productDetails it)\<rparr>"

definition group_to_dict :: "grouped \<Rightarrow> order_dict" where
  "group_to_dict g =
     \<lparr>od_oid = Some (g_id g), od_id = None, od_items = map item_to_dict (g_items g),
      od_total = g_total g\<rparr>"

text \<open>
  Lines 143-144, the body of the inner loop:
  \<^verbatim>\<open>item['productDetails']['id'] = str(item['productDetails'].pop('_id'))\<close> and
  \<^verbatim>\<open>del item['productDetails']['sizes']\<close>. Popping or deleting an absent key raises
  \<^verbatim>\<open>KeyError\<close>.
\<close>

definition shape_productDetails :: "product_dict \<Rightarrow> error + product_dict" where
  "shape_productDetails d =
     (case pd_oid d of
        None \<Rightarrow> Inl (KeyError ''_id'')
      | Some i \<Rightarrow>
          (case pd_sizes d of
             None \<Rightarrow> Inl (KeyError ''sizes'')
           | Some _ \<Rightarrow> Inr (d\<lparr>pd_oid := None, pd_id := Some (py_str i), pd_sizes := None\<rparr>)))"

definition shape_item :: "product_dict joined_item \<Rightarrow> error + product_dict joined_item" where
  "shape_item it =
     (case shape_productDetails (productDetails it) of
        Inl e \<Rightarrow> Inl e
      | Inr d \<Rightarrow> Inr (it\<lparr>productDetails := d\<rparr>))"

text \<open>A \<^verbatim>\<open>for\<close> loop over a list that stops at the first exception.\<close>

fun for_each :: "('a \<Rightarrow> error + 'b) \<Rightarrow> 'a list \<Rightarrow> error + 'b list" where
  "for_each f [] = Inr []"
| "for_each f (x # xs) =
     (case f x of
        Inl e \<Rightarrow> Inl e
      | Inr y \<Rightarrow> (case for_each f xs of Inl e \<Rightarrow> Inl e | Inr ys \<Rightarrow> Inr (y # ys)))"

text \<open>Lines 141-144, the body of the outer loop: \<^verbatim>\<open>order['id'] = str(order.pop('_id'))\<close>,
  then the inner loop over \<^verbatim>\<open>order['items']\<close>.\<close>

definition shape_order :: "order_dict \<Rightarrow> error + order_dict" where
  "shape_order ord =
     (case od_oid ord of
        None \<Rightarrow> Inl (KeyError ''_id'')
      | Some i \<Rightarrow>
          (case for_each shape_item (od_items ord) of
             Inl e \<Rightarrow> Inl e
           | Inr its \<Rightarrow> Inr (ord\<lparr>od_oid := None, od_id := Some (py_str i), od_items := its\<rparr>)))"

text \<open>The envelope of lines 87-94 and 146-153.\<close>

definition envelope :: "'a list \<Rightarrow> int \<Rightarrow> int \<Rightarrow> 'a response" where
  "envelope rows limit offset =
     \<lparr>data = rows,
      page = \<lparr>page_next = offset + limit, page_limit = int (length rows),
              page_previous = max 0 (offset - limit)\<rparr>\<rparr>"

text \<open>
  \<^verbatim>\<open>get_user_orders\<close> (lines 106-153). The query parameters are declared
  \<^verbatim>\<open>Query(10, ge=1)\<close> and \<^verbatim>\<open>Query(0, ge=0)\<close>: the framework answers a request that breaks
  a bound with a validation error before the body runs.
\<close>

definition get_user_orders ::
    "store \<Rightarrow> string \<Rightarrow> int \<Rightarrow> int \<Rightarrow> error + order_dict response" where
  "get_user_orders st user_id limit offset =
     (if limit < 1 \<or> offset < 0 then Inl RequestValidationError
      else
        (case for_each shape_order (map group_to_dict (aggregate st user_id limit offset)) of
           Inl e \<Rightarrow> Inl e
         | Inr shaped \<Rightarrow> Inr (envelope shaped limit offset)))"

section \<open>Listing products\<close>

text \<open>
  Line 78 builds the filter on \<^verbatim>\<open>name\<close> as the regular expression
  \<^verbatim>\<open>re.escape(name)\<close> with the option \<^verbatim>\<open>i\<close>. \<^verbatim>\<open>re.escape\<close> puts a backslash before
  each of the characters \<^verbatim>\<open>()[]{}?*+-|^$\.&~#\<close>, the space and the control characters
  tab, newline, carriage return, vertical tab and form feed.
\<close>

definition backslash :: char where
  "backslash = CHR 0x5C"

definition re_special :: "char \<Rightarrow> bool" where
  "re_special c =
     (c \<in> set (''()[]{}?*+-|^$.&~# '' @
               [backslash, CHR 0x09, CHR 0x0A, CHR 0x0D, CHR 0x0B, CHR 0x0C]))"

fun re_escape :: "string \<Rightarrow> string" where
  "re_escape [] = []"
| "re_escape (c # cs) =
     (if re_special c then backslash # c # re_escape cs else c # re_escape cs)"

text \<open>
  The store's regular expressions, on the patterns without operators: a character
  that is no metacharacter stands for itself, and so does any character that is
  neither a letter nor a digit after a backslash. \<open>regex_literal\<close> reads such a pattern
  into the text it stands for; it is \<open>None\<close> on a pattern with an operator (an unescaped
  metacharacter, a backslash before a letter or a digit, a backslash at the end).
\<close>

definition regex_meta :: "char \<Rightarrow> bool" where
  "regex_meta c = (c \<in> set (''^$.[|()?*+{'' @ [backslash]))"

definition digits :: string where
  "digits = ''0123456789''"

definition upper_letters :: string where
  "upper_letters = ''ABCDEFGHIJKLMNOPQRSTUVWXYZ''"

definition lower_letters :: string where
  "lower_letters = ''abcdefghijklmnopqrstuvwxyz''"

definition alnum :: "char \<Rightarrow> bool" where
  "alnum c = (c \<in> set (digits @ upper_letters @ lower_letters))"

fun regex_literal :: "string \<Rightarrow> string option" where
  "regex_literal [] = Some []"
| "regex_literal [c] = (if regex_meta c then None else Some [c])"
| "regex_literal (c # d # cs) =
     (if c = backslash
      then (if alnum d then None else map_option ((#) d) (regex_literal cs))
      else if regex_meta c then None
      else map_option ((#) c) (regex_literal (d # cs)))"

text \<open>The option \<^verbatim>\<open>i\<close>: letters match without regard to case.\<close>

definition to_lower :: "char \<Rightarrow> char" where
  "to_lower c =
     (case map_of (zip upper_letters lower_letters) c of None \<Rightarrow> c | Some l \<Rightarrow> l)"

text \<open>An unanchored pattern matches when it matches at some position of the subject.\<close>

fun search_literal :: "string \<Rightarrow> string \<Rightarrow> bool" where
  "search_literal lit [] = (lit = [])"
| "search_literal lit (c # cs) =
     (take (length lit) (c # cs) = lit \<or> search_literal lit cs)"

definition regex_search_i :: "string \<Rightarrow> string \<Rightarrow> bool option" where
  "regex_search_i pat subject =
     map_option (\<lambda>lit. search_literal (map to_lower lit) (map to_lower subject))
       (regex_literal pat)"

text \<open>
  The query of lines 76-80. \<^verbatim>\<open>if name:\<close> and \<^verbatim>\<open>if size:\<close> hold for a parameter that is
  given and not empty. \<open>q_name\<close> is the \<^verbatim>\<open>$regex\<close> on \<^verbatim>\<open>name\<close>, \<open>q_size\<close> the value
  asked of \<^verbatim>\<open>sizes.size\<close>, which a product satisfies when one element of its \<^verbatim>\<open>sizes\<close>
  has that \<^verbatim>\<open>size\<close>.
\<close>

record query =
  q_name :: "string option"
  q_size :: "string option"

definition truthy :: "string option \<Rightarrow> bool" where
  "truthy v = (case v of None \<Rightarrow> False | Some s \<Rightarrow> s \<noteq> [])"

definition build_query :: "string option \<Rightarrow> string option \<Rightarrow> query" where
  "build_query name sz =
     \<lparr>q_name = (if truthy name then map_option re_escape name else None),
      q_size = (if truthy sz then sz else None)\<rparr>"

definition size_matches :: "string option \<Rightarrow> product_doc \<Rightarrow> bool" where
  "size_matches q p =
     (case q of None \<Rightarrow> True | Some s \<Rightarrow> list_ex (\<lambda>e. sz_size e = s) (pr_sizes p))"

fun find_query :: "query \<Rightarrow> product_doc list \<Rightarrow> error + product_doc list" where
  "find_query q [] = Inr []"
| "find_query q (p # ps) =
     (case (case q_name q of None \<Rightarrow> Some True
            | Some pat \<Rightarrow> regex_search_i pat (pr_name p)) of
        None \<Rightarrow> Inl RegexError
      | Some name_ok \<Rightarrow>
          (case find_query q ps of
             Inl e \<Rightarrow> Inl e
           | Inr found \<Rightarrow>
               Inr (if name_ok \<and> size_matches (q_size q) p then p # found else found)))"

text \<open>The projection \<^verbatim>\<open>{"sizes": 0}\<close> of line 82 leaves the key out of the dictionary.\<close>

definition project_without_sizes :: "product_doc \<Rightarrow> product_dict" where
  "project_without_sizes p = (product_to_dict p)\<lparr>pd_sizes := None\<rparr>"

text \<open>Line 85: \<^verbatim>\<open>product['id'] = str(product.pop('_id'))\<close>.\<close>

definition rename_id :: "product_dict \<Rightarrow> error + product_dict" where
  "rename_id d =
     (case pd_oid d of
        None \<Rightarrow> Inl (KeyError ''_id'')
      | Some i \<Rightarrow> Inr (d\<lparr>pd_oid := None, pd_id := Some (py_str i)\<rparr>))"

text \<open>\<^verbatim>\<open>list_products\<close> (lines 66-94).\<close>

definition list_products ::
    "store \<Rightarrow> string option \<Rightarrow> string option \<Rightarrow> int \<Rightarrow> int \<Rightarrow> error + product_dict response" where
  "list_products st name sz limit offset =
     (if limit < 1 \<or> offset < 0 then Inl RequestValidationError
      else
        (case find_query (build_query name sz) (products st) of
           Inl e \<Rightarrow> Inl e
         | Inr found \<Rightarrow>
             (case for_each rename_id
                     (map project_without_sizes (limit_stage limit (skip_stage offset found))) of
                Inl e \<Rightarrow> Inl e
              | Inr shaped \<Rightarrow> Inr (envelope shaped limit offset))))"

section \<open>Writing products and orders\<close>

text \<open>
  \<^verbatim>\<open>create_product\<close> (lines 57-64) and \<^verbatim>\<open>create_order\<close> (lines 96-104) insert the
  dictionary of the request model. Neither model has an \<^verbatim>\<open>_id\<close>, so \<^verbatim>\<open>insert_one\<close>
  adds a new \<^verbatim>\<open>ObjectId\<close>, here the parameter \<open>inserted_id\<close>; the \<^verbatim>\<open>productId\<close> of an
  item is declared \<^verbatim>\<open>str\<close> and is stored as that string. Both return the identifier's
  text and the new store.
\<close>

definition create_product :: "object_id \<Rightarrow> product_model \<Rightarrow> store \<Rightarrow> string \<times> store" where
  "create_product inserted_id product st =
     (py_str (IdOid inserted_id),
      st\<lparr>products := products st @
           [\<lparr>pr_name = pr_name product, pr_price = pr_price product,
             pr_sizes = pr_sizes product, p_id = IdOid inserted_id\<rparr>]\<rparr>)"

definition order_item_dict :: "order_item_model \<Rightarrow> order_item" where
  "order_item_dict i = \<lparr>productId = IdStr (oi_productId i), qty = oi_qty i\<rparr>"

definition create_order :: "object_id \<Rightarrow> order_model \<Rightarrow> store \<Rightarrow> string \<times> store" where
  "create_order inserted_id ord st =
     (py_str (IdOid inserted_id),
      st\<lparr>orders := orders st @
           [\<lparr>o_id = IdOid inserted_id, o_userId = or_userId ord,
             o_items = map order_item_dict (or_items ord)\<rparr>]\<rparr>)"

text \<open>
  The stores that the two \<^verbatim>\<open>POST\<close> endpoints build from the empty store. The store
  keeps \<^verbatim>\<open>_id\<close> unique in a collection, so the identifier of an insertion is new.
\<close>

inductive populated :: "store \<Rightarrow> bool" where
  empty: "populated \<lparr>products = [], orders = []\<rparr>"
| product: "populated st \<Longrightarrow> IdOid i \<notin> p_id ` set (products st) \<Longrightarrow>
            populated (snd (create_product i product st))"
| order: "populated st \<Longrightarrow> IdOid i \<notin> o_id ` set (orders st) \<Longrightarrow>
          populated (snd (create_order i ord st))"

section \<open>What the contract says of the output\<close>

text \<open>
  The shape the specification gives the output (section 4.1, step 7): the identifier
  of an order and of each joined product under the key \<^verbatim>\<open>id\<close>, as text, and no
  \<^verbatim>\<open>sizes\<close> on a joined product. The theorems below relate the handlers to these.
\<close>

definition public_product :: "product_doc \<Rightarrow> product_dict" where
  "public_product p =
     \<lparr>pd_oid = None, pd_id = Some (py_str (p_id p)), pd_name = pr_name p,
      pd_price = pr_price p, pd_sizes = None\<rparr>"

definition public_item :: "product_doc joined_item \<Rightarrow> product_dict joined_item" where
  "public_item it =
     \<lparr>productId = productId it, qty = qty it,
      productDetails = public_product (productDetails it)\<rparr>"

definition public_order :: "grouped \<Rightarrow> order_dict" where
  "public_order g =
     \<lparr>od_oid = None, od_id = Some (py_str (g_id g)), od_items = map public_item (g_items g),
      od_total = g_total g\<rparr>"

text \<open>An item has a product when some product's \<^verbatim>\<open>_id\<close> equals its \<^verbatim>\<open>productId\<close>.\<close>

definition has_product :: "product_doc list \<Rightarrow> 'a order_item_scheme \<Rightarrow> bool" where
  "has_product prods it = list_ex (\<lambda>p. p_id p = productId it) prods"

text \<open>An order without the items that have no product.\<close>

definition matched_items_only ::
    "product_doc list \<Rightarrow> order_item list order_doc \<Rightarrow> order_item list order_doc" where
  "matched_items_only prods d = d\<lparr>o_items := filter (has_product prods) (o_items d)\<rparr>"

text \<open>A name contains a text without regard to case.\<close>

definition contains_ignoring_case :: "string \<Rightarrow> string \<Rightarrow> bool" where
  "contains_ignoring_case n s = (\<exists>ps ss. map to_lower s = ps @ map to_lower n @ ss)"

text \<open>
  The rows one order sends to \<^verbatim>\<open>$group\<close>: for each of its items in turn, one row per
  product whose \<^verbatim>\<open>_id\<close> equals the item's \<^verbatim>\<open>productId\<close>.
\<close>

definition order_rows ::
    "product_doc list \<Rightarrow> order_item list order_doc \<Rightarrow> product_doc joined_item order_doc list" where
  "order_rows prods d =
     concat (map (\<lambda>it. map (\<lambda>p. \<lparr>o_id = o_id d, o_userId = o_userId d,
                                   o_items = \<lparr>productId = productId it, qty = qty it,
                                              productDetails = p\<rparr>\<rparr>)
                            (filter (\<lambda>p. p_id p = productId it) prods))
                 (o_items d))"

text \<open>
  A store for the examples. The products \<open>p1\<close> and \<open>p3\<close> carry strings as identifiers
  and the second product an \<^verbatim>\<open>ObjectId\<close>; the user \<open>u1\<close> has an order with an item
  without a product (\<open>p9\<close>), an order with no other item than that, and a third order;
  the user \<open>u2\<close> has an order without items.
\<close>

definition example_store :: store where
  "example_store =
     \<lparr>products =
        [\<lparr>pr_name = ''Red Shirt'', pr_price = 10,
          pr_sizes = [\<lparr>sz_size = ''M'', sz_quantity = 3\<rparr>], p_id = IdStr ''p1''\<rparr>,
         \<lparr>pr_name = ''shirt-style-2'', pr_price = 5 / 2, pr_sizes = [],
          p_id = IdOid (ObjectId ''65f1a0000000000000000002'')\<rparr>,
         \<lparr>pr_name = ''Pants'', pr_price = 7, pr_sizes = [], p_id = IdStr ''p3''\<rparr>],
      orders =
        [\<lparr>o_id = IdOid (ObjectId ''65f1b0000000000000000001''), o_userId = ''u1'',
          o_items = [\<lparr>productId = IdStr ''p1'', qty = 2\<rparr>, \<lparr>productId = IdStr ''p9'', qty = 1\<rparr>,
                     \<lparr>productId = IdStr ''p3'', qty = 3\<rparr>]\<rparr>,
         \<lparr>o_id = IdOid (ObjectId ''65f1b0000000000000000002''), o_userId = ''u1'',
          o_items = [\<lparr>productId = IdStr ''p9'', qty = 4\<rparr>]\<rparr>,
         \<lparr>o_id = IdOid (ObjectId ''65f1b0000000000000000003''), o_userId = ''u2'',
          o_items = []\<rparr>,
         \<lparr>o_id = IdOid (ObjectId ''65f1b0000000000000000004''), o_userId = ''u1'',
          o_items = [\<lparr>productId = IdStr ''p3'', qty = 1\<rparr>]\<rparr>]\<rparr>"

text \<open>The first page of the orders of \<open>u1\<close> in the example store, as the contract has it.\<close>

definition example_order_1 :: order_dict where
  "example_order_1 =
     \<lparr>od_oid = None, od_id = Some ''65f1b0000000000000000001'',
      od_items =
        [\<lparr>productId = IdStr ''p1'', qty = 2,
          productDetails = \<lparr>pd_oid = None, pd_id = Some ''p1'', pd_name = ''Red Shirt'',
            pd_price = 10, pd_sizes = None\<rparr>\<rparr>,
         \<lparr>productId = IdStr ''p3'', qty = 3,
          productDetails = \<lparr>pd_oid = None, pd_id = Some ''p3'', pd_name = ''Pants'',
            pd_price = 7, pd_sizes = None\<rparr>\<rparr>],
      od_total = 41\<rparr>"

definition example_order_4 :: order_dict where
  "example_order_4 =
     \<lparr>od_oid = None, od_id = Some ''65f1b0000000000000000004'',
      od_items =
        [\<lparr>productId = IdStr ''p3'', qty = 1,
          productDetails = \<lparr>pd_oid = None, pd_id = Some ''p3'', pd_name = ''Pants'',
            pd_price = 7, pd_sizes = None\<rparr>\<rparr>],
      od_total = 7\<rparr>"

definition example_page :: "order_dict response" where
  "example_page =
     \<lparr>data = [example_order_1, example_order_4],
      page = \<lparr>page_next = 10, page_limit = 2, page_previous = 0\<rparr>\<rparr>"

text \<open>
  The store after \<^verbatim>\<open>POST /products\<close> and then \<^verbatim>\<open>POST /orders\<close> with the identifier
  the first call returned as the \<^verbatim>\<open>productId\<close> of the order's item.
\<close>

definition posted_store :: store where
  "posted_store =
     snd (create_order (ObjectId ''65f1b0000000000000000001'')
            \<lparr>or_userId = ''u1'',
             or_items = [\<lparr>oi_productId = ''65f1a0000000000000000001'', oi_qty = 2\<rparr>]\<rparr>
            (snd (create_product (ObjectId ''65f1a0000000000000000001'')
                    \<lparr>pr_name = ''Red Shirt'', pr_price = 10,
                     pr_sizes = [\<lparr>sz_size = ''M'', sz_quantity = 3\<rparr>]\<rparr>
                    \<lparr>products = [], orders = []\<rparr>)))"

text \<open>
  The store of the specification's scenario: \<open>u1\<close> has one order, with the items
  \<^verbatim>\<open>[{productId: "p1", qty: 2}]\<close>, and the product \<open>p1\<close> has the price 10.
\<close>

definition scenario_store :: store where
  "scenario_store =
     \<lparr>products =
        [\<lparr>pr_name = ''Red Shirt'', pr_price = 10,
          pr_sizes = [\<lparr>sz_size = ''M'', sz_quantity = 3\<rparr>], p_id = IdStr ''p1''\<rparr>],
      orders =
        [\<lparr>o_id = IdOid (ObjectId ''65f1b0000000000000000009''), o_userId = ''u1'',
          o_items = [\<lparr>productId = IdStr ''p1'', qty = 2\<rparr>]\<rparr>]\<rparr>"

section \<open>The handlers return\<close>

lemma for_each_map:
  "(\<And>x. x \<in> set xs \<Longrightarrow> f (h x) = Inr (g x)) \<Longrightarrow> for_each f (map h xs) = Inr (map g xs)"
  by (induction xs) auto

lemma shape_productDetails_dict:
  "shape_productDetails (product_to_dict p) = Inr (public_product p)"
  by (simp add: shape_productDetails_def product_to_dict_def public_product_def)

lemma shape_item_dict: "shape_item (item_to_dict it) = Inr (public_item it)"
  by (simp add: shape_item_def item_to_dict_def shape_productDetails_dict public_item_def)

lemma shape_order_dict: "shape_order (group_to_dict g) = Inr (public_order g)"
  by (simp add: shape_order_def group_to_dict_def for_each_map shape_item_dict public_order_def)

lemma get_user_orders_returns:
  "1 \<le> limit \<Longrightarrow> 0 \<le> offset \<Longrightarrow>
   get_user_orders st u limit offset =
     Inr (envelope (map public_order (aggregate st u limit offset)) limit offset)"
  by (simp add: get_user_orders_def for_each_map shape_order_dict)

lemma meta_special: "regex_meta c \<Longrightarrow> re_special c"
  by (auto simp: regex_meta_def re_special_def)

lemma special_not_alnum: "re_special c \<Longrightarrow> \<not> alnum c"
  by (auto simp: re_special_def alnum_def backslash_def digits_def upper_letters_def
      lower_letters_def)

lemma backslash_special: "re_special backslash"
  by (simp add: re_special_def)

text \<open>An escaped text is a pattern without operators, and stands for the text.\<close>

lemma regex_literal_re_escape: "regex_literal (re_escape s) = Some s"
proof (induction s)
  case Nil
  show ?case by simp
next
  case (Cons c cs)
  show ?case
  proof (cases "re_special c")
    case True
    then show ?thesis using Cons special_not_alnum by simp
  next
    case False
    then have nm: "\<not> regex_meta c" and nb: "c \<noteq> backslash"
      using meta_special backslash_special by auto
    show ?thesis
    proof (cases "re_escape cs")
      case Nil
      then have "cs = []" by (cases cs) (auto split: if_splits)
      then show ?thesis using False nm by simp
    next
      case (Cons d ds)
      then show ?thesis using False nm nb Cons.IH by simp
    qed
  qed
qed

lemma search_literal_iff: "search_literal lit s \<longleftrightarrow> (\<exists>ps ss. s = ps @ lit @ ss)"
proof (induction s)
  case Nil
  show ?case by auto
next
  case (Cons c cs)
  have "(\<exists>ps ss. c # cs = ps @ lit @ ss) \<longleftrightarrow>
        (\<exists>ss. c # cs = lit @ ss) \<or> (\<exists>ps ss. cs = ps @ lit @ ss)"
  proof
    assume "\<exists>ps ss. c # cs = ps @ lit @ ss"
    then obtain ps ss where e: "c # cs = ps @ lit @ ss" by blast
    show "(\<exists>ss. c # cs = lit @ ss) \<or> (\<exists>ps ss. cs = ps @ lit @ ss)"
    proof (cases ps)
      case Nil
      then show ?thesis using e by auto
    next
      case (Cons p ps')
      then show ?thesis using e by auto
    qed
  next
    assume "(\<exists>ss. c # cs = lit @ ss) \<or> (\<exists>ps ss. cs = ps @ lit @ ss)"
    then show "\<exists>ps ss. c # cs = ps @ lit @ ss"
    proof
      assume "\<exists>ss. c # cs = lit @ ss"
      then obtain ss where "c # cs = [] @ lit @ ss" by auto
      then show ?thesis by blast
    next
      assume "\<exists>ps ss. cs = ps @ lit @ ss"
      then obtain ps ss where "cs = ps @ lit @ ss" by blast
      then have "c # cs = (c # ps) @ lit @ ss" by simp
      then show ?thesis by blast
    qed
  qed
  moreover have "(take (length lit) (c # cs) = lit) \<longleftrightarrow> (\<exists>ss. c # cs = lit @ ss)"
    by (metis append_eq_conv_conj)
  ultimately show ?case using Cons.IH by simp
qed

lemma find_query_no_name:
  "q_name q = None \<Longrightarrow> find_query q ps = Inr (filter (size_matches (q_size q)) ps)"
  by (induction ps) auto

lemma find_query_name:
  "q_name q = Some (re_escape n) \<Longrightarrow>
   find_query q ps =
     Inr (filter (\<lambda>p. contains_ignoring_case n (pr_name p) \<and> size_matches (q_size q) p) ps)"
  by (induction ps)
    (auto simp: regex_search_i_def regex_literal_re_escape search_literal_iff
      contains_ignoring_case_def)

lemma contains_empty: "contains_ignoring_case [] s"
proof -
  have "map to_lower s = [] @ map to_lower [] @ map to_lower s" by simp
  then show ?thesis unfolding contains_ignoring_case_def by blast
qed

text \<open>The filter that \<^verbatim>\<open>find\<close> applies for the parameters \<^verbatim>\<open>name\<close> and \<^verbatim>\<open>size\<close>.\<close>

lemma find_query_build:
  "find_query (build_query name sz) ps =
     Inr (filter (\<lambda>p. (case name of None \<Rightarrow> True | Some n \<Rightarrow> contains_ignoring_case n (pr_name p)) \<and>
                      size_matches (if truthy sz then sz else None) p) ps)"
proof (cases "truthy name")
  case True
  then obtain n where n: "name = Some n" by (auto simp: truthy_def split: option.splits)
  then have "q_name (build_query name sz) = Some (re_escape n)"
    using True by (simp add: build_query_def)
  from find_query_name [OF this] show ?thesis using n by (simp add: build_query_def)
next
  case False
  then have "q_name (build_query name sz) = None" by (simp add: build_query_def)
  from find_query_no_name [OF this] show ?thesis
    using False by (auto simp: build_query_def truthy_def contains_empty split: option.splits)
qed

lemma rename_id_project: "rename_id (project_without_sizes p) = Inr (public_product p)"
  by (simp add: rename_id_def project_without_sizes_def product_to_dict_def public_product_def)

lemma list_products_returns:
  "1 \<le> limit \<Longrightarrow> 0 \<le> offset \<Longrightarrow> find_query (build_query name sz) (products st) = Inr found \<Longrightarrow>
   list_products st name sz limit offset =
     Inr (envelope (map public_product (limit_stage limit (skip_stage offset found)))
            limit offset)"
  by (simp add: list_products_def for_each_map rename_id_project)

section \<open>The rows and the groups of the pipeline\<close>

lemma unwind_items_concat: "unwind_items ds = concat (map unwind_one ds)"
  by (induction ds) auto

lemma unwind_productDetails_concat:
  "unwind_productDetails rs = concat (map unwind_details_one rs)"
  by (induction rs) auto

lemma joined_one:
  "concat (map (unwind_details_one \<circ> lookup_one prods) (unwind_one d)) = order_rows prods d"
  by (simp add: unwind_one_def order_rows_def unwind_details_one_def lookup_one_def comp_def)

lemma joined_rows_concat:
  "joined_rows st u = concat (map (order_rows (products st)) (match_userId u (orders st)))"
proof -
  have "unwind_productDetails (lookup_products prods (unwind_items ds)) =
        concat (map (order_rows prods) ds)" for prods ds
  proof (induction ds)
    case Nil
    show ?case by (simp add: lookup_products_def)
  next
    case (Cons d ds)
    have "unwind_productDetails (lookup_products prods (unwind_items (d # ds))) =
          concat (map (unwind_details_one \<circ> lookup_one prods) (unwind_one d)) @
          unwind_productDetails (lookup_products prods (unwind_items ds))"
      by (simp add: lookup_products_def unwind_productDetails_concat)
    then show ?case using Cons.IH by (simp add: joined_one)
  qed
  then show ?thesis by (simp add: joined_rows_def)
qed

lemma concat_map_filter_nil:
  "(\<And>x. x \<in> set xs \<Longrightarrow> \<not> Q x \<Longrightarrow> F x = []) \<Longrightarrow>
   concat (map F (filter Q xs)) = concat (map F xs)"
  by (induction xs) auto

lemma order_rows_matched_items_only:
  "order_rows prods (matched_items_only prods d) = order_rows prods d"
proof -
  have "\<not> has_product prods it \<Longrightarrow> filter (\<lambda>p. p_id p = productId it) prods = []"
    for it :: order_item
    by (auto simp: has_product_def list_ex_iff filter_empty_conv)
  then show ?thesis
    by (simp add: order_rows_def matched_items_only_def concat_map_filter_nil)
qed


lemma order_rows_unmatched:
  "(\<And>it. it \<in> set (o_items d) \<Longrightarrow> \<not> has_product prods it) \<Longrightarrow> order_rows prods d = []"
  by (auto simp: order_rows_def has_product_def list_ex_iff filter_empty_conv)

lemma order_rows_id: "r \<in> set (order_rows prods d) \<Longrightarrow> o_id r = o_id d"
  by (auto simp: order_rows_def)

lemma order_rows_product:
  "r \<in> set (order_rows prods d) \<Longrightarrow>
   productDetails (o_items r) \<in> set prods \<and>
   p_id (productDetails (o_items r)) = productId (o_items r) \<and>
   (\<exists>it \<in> set (o_items d). productId it = productId (o_items r) \<and> qty it = qty (o_items r))"
  by (auto simp: order_rows_def)

lemma push_group_ids: "g_id ` set (push_group r gs) = insert (o_id r) (g_id ` set gs)"
  by (induction gs) auto

lemma group_by_id_ids: "g_id ` set (group_by_id rows) = o_id ` set rows"
proof -
  have "g_id ` set (foldl (\<lambda>gs r. push_group r gs) gs rows) = g_id ` set gs \<union> o_id ` set rows"
    for gs
    by (induction rows arbitrary: gs) (auto simp: push_group_ids)
  then show ?thesis by (simp add: group_by_id_def)
qed

lemma push_group_items:
  "\<forall>g \<in> set gs. \<forall>it \<in> set (g_items g). P it \<Longrightarrow> P (o_items r) \<Longrightarrow>
   \<forall>g \<in> set (push_group r gs). \<forall>it \<in> set (g_items g). P it"
  by (induction gs) auto

lemma group_by_id_items:
  assumes "\<And>r. r \<in> set rows \<Longrightarrow> P (o_items r)"
    and "g \<in> set (group_by_id rows)" and "it \<in> set (g_items g)"
  shows "P it"
proof -
  have "(\<forall>g \<in> set gs. \<forall>it \<in> set (g_items g). P it) \<Longrightarrow> (\<forall>r \<in> set rs. P (o_items r)) \<Longrightarrow>
        (\<forall>g \<in> set (foldl (\<lambda>gs r. push_group r gs) gs rs). \<forall>it \<in> set (g_items g). P it)"
    for gs rs
  proof (induction rs arbitrary: gs)
    case Nil
    then show ?case by simp
  next
    case (Cons r rs)
    have "\<forall>g \<in> set (push_group r gs). \<forall>it \<in> set (g_items g). P it"
      using Cons.prems push_group_items [of gs P r] by simp
    then show ?case using Cons.IH Cons.prems(2) by simp
  qed
  from this [of "[]" rows] assms show ?thesis by (simp add: group_by_id_def)
qed

lemma aggregate_subset: "set (aggregate st u limit offset) \<subseteq> set (user_groups st u)"
  unfolding aggregate_def limit_stage_def skip_stage_def
  using set_take_subset set_drop_subset by fast

lemmas pipeline_defs =
  joined_rows_def match_userId_def unwind_one_def lookup_products_def lookup_one_def
  unwind_details_one_def group_by_id_def line_total_def

lemmas public_defs = public_order_def public_item_def public_product_def envelope_def

text \<open>The groups of the user \<open>u1\<close> in the example store.\<close>

lemma example_groups:
  "user_groups example_store ''u1'' =
     [\<lparr>g_id = IdOid (ObjectId ''65f1b0000000000000000001''),
       g_items =
         [\<lparr>productId = IdStr ''p1'', qty = 2,
           productDetails = \<lparr>pr_name = ''Red Shirt'', pr_price = 10,
             pr_sizes = [\<lparr>sz_size = ''M'', sz_quantity = 3\<rparr>], p_id = IdStr ''p1''\<rparr>\<rparr>,
          \<lparr>productId = IdStr ''p3'', qty = 3,
           productDetails = \<lparr>pr_name = ''Pants'', pr_price = 7, pr_sizes = [],
             p_id = IdStr ''p3''\<rparr>\<rparr>],
       g_total = 41\<rparr>,
      \<lparr>g_id = IdOid (ObjectId ''65f1b0000000000000000004''),
       g_items =
         [\<lparr>productId = IdStr ''p3'', qty = 1,
           productDetails = \<lparr>pr_name = ''Pants'', pr_price = 7, pr_sizes = [],
             p_id = IdStr ''p3''\<rparr>\<rparr>],
       g_total = 7\<rparr>]"
  by (simp add: user_groups_def example_store_def pipeline_defs)

lemma returned_orders:
  "get_user_orders st u limit offset = Inr resp \<Longrightarrow>
   1 \<le> limit \<and> 0 \<le> offset \<and>
   resp = envelope (map public_order (aggregate st u limit offset)) limit offset"
proof -
  assume a: "get_user_orders st u limit offset = Inr resp"
  then have v: "1 \<le> limit" "0 \<le> offset"
    by (auto simp: get_user_orders_def split: if_splits)
  from get_user_orders_returns [OF v] a show ?thesis using v by simp
qed

lemma joined_rows_product:
  "r \<in> set (joined_rows st u) \<Longrightarrow>
   productDetails (o_items r) \<in> set (products st) \<and>
   p_id (productDetails (o_items r)) = productId (o_items r)"
  using order_rows_product by (fastforce simp: joined_rows_concat)

lemma group_items_product:
  assumes "g \<in> set (user_groups st u)" and "it \<in> set (g_items g)"
  shows "productDetails it \<in> set (products st) \<and> p_id (productDetails it) = productId it"
  using group_by_id_items
    [where P = "\<lambda>it. productDetails it \<in> set (products st) \<and> p_id (productDetails it) = productId it"
      and rows = "joined_rows st u" and g = g and it = it]
    joined_rows_product assms
  by (simp add: user_groups_def)

lemma joined_rows_cong:
  "products st' = products st \<Longrightarrow>
   concat (map (order_rows (products st)) (match_userId u (orders st'))) =
   concat (map (order_rows (products st)) (match_userId u (orders st))) \<Longrightarrow>
   get_user_orders st' u limit offset = get_user_orders st u limit offset"
  by (simp add: get_user_orders_def aggregate_def user_groups_def joined_rows_concat)

lemma joined_rows_matched_only:
  "concat (map (order_rows prods) (match_userId u (map (matched_items_only prods) ds))) =
   concat (map (order_rows prods) (match_userId u ds))"
proof -
  have "o_userId (matched_items_only prods d) = o_userId d" for d
    by (simp add: matched_items_only_def)
  then show ?thesis
    by (induction ds) (auto simp: match_userId_def order_rows_matched_items_only)
qed

lemma joined_rows_without:
  "(\<And>d. d \<in> set ds \<Longrightarrow> \<not> Q d \<Longrightarrow> order_rows prods d = []) \<Longrightarrow>
   concat (map (order_rows prods) (match_userId u (filter Q ds))) =
   concat (map (order_rows prods) (match_userId u ds))"
  by (induction ds) (auto simp: match_userId_def)

lemma example_response: "get_user_orders example_store ''u1'' 10 0 = Inr example_page"
  by (simp add: get_user_orders_returns aggregate_def limit_stage_def skip_stage_def
      example_groups public_defs example_page_def example_order_1_def example_order_4_def)

lemma contains_search:
  "contains_ignoring_case n s \<longleftrightarrow> search_literal (map to_lower n) (map to_lower s)"
  by (simp add: contains_ignoring_case_def search_literal_iff)

lemma populated_ids:
  "populated st \<Longrightarrow>
   (\<forall>p \<in> set (products st). \<exists>i. p_id p = IdOid i) \<and>
   (\<forall>d \<in> set (orders st). \<forall>it \<in> set (o_items d). \<exists>s. productId it = IdStr s)"
proof (induction rule: populated.induct)
  case empty
  show ?case by simp
next
  case (product st i product)
  then show ?case by (auto simp: create_product_def)
next
  case (order st i ord)
  then show ?case by (auto simp: create_order_def order_item_dict_def)
qed

section \<open>The claims\<close>

text \<open>
  C5. For a request within the declared bounds (\<open>limit \<ge> 1\<close>, \<open>offset \<ge> 0\<close>), both
  \<^verbatim>\<open>get_user_orders\<close> and \<^verbatim>\<open>list_products\<close> answer, and the envelope of the answer has
  \<^verbatim>\<open>next = offset + limit\<close>, \<^verbatim>\<open>previous = max(0, offset - limit)\<close> and \<^verbatim>\<open>limit\<close> equal to
  the number of entries of \<^verbatim>\<open>data\<close>.
\<close>

theorem pagination_envelope:
  assumes "1 \<le> limit" and "0 \<le> offset"
  shows "(\<exists>r. get_user_orders st user_id limit offset = Inr r \<and>
              page_next (page r) = offset + limit \<and>
              page_previous (page r) = max 0 (offset - limit) \<and>
              page_limit (page r) = int (length (data r))) \<and>
         (\<exists>r. list_products st name sz limit offset = Inr r \<and>
              page_next (page r) = offset + limit \<and>
              page_previous (page r) = max 0 (offset - limit) \<and>
              page_limit (page r) = int (length (data r)))"
proof
  show "\<exists>r. get_user_orders st user_id limit offset = Inr r \<and>
             page_next (page r) = offset + limit \<and>
             page_previous (page r) = max 0 (offset - limit) \<and>
             page_limit (page r) = int (length (data r))"
    using get_user_orders_returns [OF assms] by (simp add: envelope_def)
next
  obtain found where "find_query (build_query name sz) (products st) = Inr found"
    using find_query_build by blast
  from list_products_returns [OF assms this]
  show "\<exists>r. list_products st name sz limit offset = Inr r \<and>
             page_next (page r) = offset + limit \<and>
             page_previous (page r) = max 0 (offset - limit) \<and>
             page_limit (page r) = int (length (data r))"
    by (simp add: envelope_def)
qed

text \<open>
  The second page of size one of the orders of \<open>u1\<close>, and the third page of size two
  of the products with a size \<open>M\<close>, in the example store.
\<close>

theorem pagination_envelope_witness:
  "(1::int) \<le> 1 \<and> (0::int) \<le> 1 \<and>
   (\<exists>r. get_user_orders example_store ''u1'' 1 1 = Inr r \<and> page_next (page r) = 2 \<and>
        page_previous (page r) = 0 \<and> page_limit (page r) = int (length (data r))) \<and>
   (\<exists>r. list_products example_store None (Some ''M'') 1 1 = Inr r \<and> page_next (page r) = 2 \<and>
        page_previous (page r) = 0 \<and> page_limit (page r) = int (length (data r)))"
  using pagination_envelope [of 1 1 example_store "''u1''" None "Some ''M''"] by simp

text \<open>
  C6. For a request within the declared bounds, \<^verbatim>\<open>data\<close> has at most \<open>limit\<close> entries:
  they are the groups of the user after the first \<open>offset\<close> are skipped and at most
  \<open>limit\<close> are taken.
\<close>

theorem data_within_limit:
  assumes "1 \<le> limit" and "0 \<le> offset"
  shows "\<exists>r. get_user_orders st user_id limit offset = Inr r \<and>
             int (length (data r)) \<le> limit \<and>
             data r =
               map public_order (take (nat limit) (drop (nat offset) (user_groups st user_id)))"
  using get_user_orders_returns [OF assms] assms
  by (simp add: envelope_def aggregate_def limit_stage_def skip_stage_def)

theorem data_within_limit_witness:
  "(1::int) \<le> 1 \<and> (0::int) \<le> 1 \<and>
   (\<exists>r. get_user_orders example_store ''u1'' 1 1 = Inr r \<and> int (length (data r)) \<le> 1 \<and>
        data r =
          [\<lparr>od_oid = None, od_id = Some ''65f1b0000000000000000004'',
            od_items =
              [\<lparr>productId = IdStr ''p3'', qty = 1,
                productDetails = \<lparr>pd_oid = None, pd_id = Some ''p3'', pd_name = ''Pants'',
                  pd_price = 7, pd_sizes = None\<rparr>\<rparr>],
            od_total = 7\<rparr>])"
  using data_within_limit [of 1 1 example_store "''u1''"]
  by (simp add: example_groups public_defs)

text \<open>
  C8. A user without orders in the store gets a successful answer with an empty
  \<^verbatim>\<open>data\<close>, not an error.
\<close>

theorem no_orders_empty_data:
  assumes "1 \<le> limit" and "0 \<le> offset" and "\<forall>d \<in> set (orders st). o_userId d \<noteq> user_id"
  shows "get_user_orders st user_id limit offset =
           Inr \<lparr>data = [],
                page = \<lparr>page_next = offset + limit, page_limit = 0,
                        page_previous = max 0 (offset - limit)\<rparr>\<rparr>"
proof -
  have "match_userId user_id (orders st) = []"
    using assms(3) by (auto simp: match_userId_def filter_empty_conv)
  then have "aggregate st user_id limit offset = []"
    by (simp add: aggregate_def user_groups_def joined_rows_concat group_by_id_def
        limit_stage_def skip_stage_def)
  then show ?thesis using get_user_orders_returns [OF assms(1,2)] by (simp add: envelope_def)
qed

theorem no_orders_empty_data_witness:
  "(1::int) \<le> 10 \<and> (0::int) \<le> 0 \<and>
   \<not> list_ex (\<lambda>d. o_userId d = ''u7'') (orders example_store) \<and>
   get_user_orders example_store ''u7'' 10 0 =
     Inr \<lparr>data = [], page = \<lparr>page_next = 10, page_limit = 0, page_previous = 0\<rparr>\<rparr>"
  using no_orders_empty_data [of 10 0 example_store "''u7''"]
  by (simp add: example_store_def)

text \<open>
  C1. In \<^verbatim>\<open>get_user_orders\<close>, a row of the flattened orders of the user whose item has no
  product is discarded by the join: \<^verbatim>\<open>$lookup\<close> and the second \<^verbatim>\<open>$unwind\<close> emit nothing
  for it. The answer is the one the store gives with such items taken out of the
  orders, so the item adds nothing to any total, and every returned item has a product.
\<close>

theorem unmatched_item_discarded:
  "(\<forall>r \<in> set (unwind_items (match_userId user_id (orders st))).
      \<not> has_product (products st) (o_items r) \<longrightarrow>
      unwind_productDetails (lookup_products (products st) [r]) = []) \<and>
   get_user_orders st user_id limit offset =
     get_user_orders (st\<lparr>orders := map (matched_items_only (products st)) (orders st)\<rparr>)
       user_id limit offset \<and>
   (\<forall>resp. get_user_orders st user_id limit offset = Inr resp \<longrightarrow>
      (\<forall>ord \<in> set (data resp). \<forall>it \<in> set (od_items ord). has_product (products st) it))"
proof (intro conjI allI impI ballI)
  fix r :: "order_item order_doc"
  assume "\<not> has_product (products st) (o_items r)"
  then show "unwind_productDetails (lookup_products (products st) [r]) = []"
    by (auto simp: lookup_products_def lookup_one_def unwind_details_one_def has_product_def
        list_ex_iff filter_empty_conv)
next
  show "get_user_orders st user_id limit offset =
     get_user_orders (st\<lparr>orders := map (matched_items_only (products st)) (orders st)\<rparr>)
       user_id limit offset"
    by (rule joined_rows_cong [symmetric]) (simp_all add: joined_rows_matched_only)
next
  fix resp ord it
  assume r: "get_user_orders st user_id limit offset = Inr resp"
    and o: "ord \<in> set (data resp)" and i: "it \<in> set (od_items ord)"
  from returned_orders [OF r] o obtain g
    where g: "g \<in> set (aggregate st user_id limit offset)" and og: "ord = public_order g"
    by (auto simp: envelope_def)
  from i og obtain it0 where i0: "it0 \<in> set (g_items g)" and ii: "it = public_item it0"
    by (auto simp: public_order_def)
  from g aggregate_subset have "g \<in> set (user_groups st user_id)" by blast
  from group_items_product [OF this i0] show "has_product (products st) it"
    using ii by (auto simp: has_product_def list_ex_iff public_item_def)
qed

text \<open>
  In the example store the item \<open>p9\<close> of the first order of \<open>u1\<close> has no product: its
  row is discarded, and the answer is the same with and without the item.
\<close>

theorem unmatched_item_discarded_witness:
  "\<lparr>o_id = IdOid (ObjectId ''65f1b0000000000000000001''), o_userId = ''u1'',
     o_items = \<lparr>productId = IdStr ''p9'', qty = 1\<rparr>\<rparr>
     \<in> set (unwind_items (match_userId ''u1'' (orders example_store))) \<and>
   \<not> has_product (products example_store) \<lparr>productId = IdStr ''p9'', qty = 1\<rparr> \<and>
   unwind_productDetails (lookup_products (products example_store)
     [\<lparr>o_id = IdOid (ObjectId ''65f1b0000000000000000001''), o_userId = ''u1'',
       o_items = \<lparr>productId = IdStr ''p9'', qty = 1\<rparr>\<rparr>]) = [] \<and>
   get_user_orders example_store ''u1'' 10 0 = Inr example_page \<and>
   get_user_orders
     (example_store\<lparr>orders :=
        map (matched_items_only (products example_store)) (orders example_store)\<rparr>)
     ''u1'' 10 0 = Inr example_page \<and>
   list_all (\<lambda>ord. list_all (has_product (products example_store)) (od_items ord))
     (data example_page)"
proof -
  note t = unmatched_item_discarded [of "''u1''" example_store 10 0]
  have 1: "\<lparr>o_id = IdOid (ObjectId ''65f1b0000000000000000001''), o_userId = ''u1'',
       o_items = \<lparr>productId = IdStr ''p9'', qty = 1\<rparr>\<rparr>
     \<in> set (unwind_items (match_userId ''u1'' (orders example_store)))"
    by (simp add: example_store_def match_userId_def unwind_one_def)
  have 2: "\<not> has_product (products example_store) \<lparr>productId = IdStr ''p9'', qty = 1\<rparr>"
    by (simp add: example_store_def has_product_def)
  from t 1 2 have 3: "unwind_productDetails (lookup_products (products example_store)
     [\<lparr>o_id = IdOid (ObjectId ''65f1b0000000000000000001''), o_userId = ''u1'',
       o_items = \<lparr>productId = IdStr ''p9'', qty = 1\<rparr>\<rparr>]) = []"
    by fastforce
  from t example_response have 4: "get_user_orders
     (example_store\<lparr>orders :=
        map (matched_items_only (products example_store)) (orders example_store)\<rparr>)
     ''u1'' 10 0 = Inr example_page"
    by simp
  from t example_response
  have 5: "list_all (\<lambda>ord. list_all (has_product (products example_store)) (od_items ord))
     (data example_page)"
    by (simp add: list_all_iff)
  from 1 2 3 4 5 example_response show ?thesis by blast
qed

text \<open>
  C3, as stated: an order of the user whose items were all discarded by the join is
  still returned, with an empty \<^verbatim>\<open>items\<close> and \<^verbatim>\<open>total\<close> 0. It is not: the only order of
  \<open>u1\<close> below has one item, without a product, and \<^verbatim>\<open>data\<close> is empty.
\<close>

theorem emptied_order_counterexample:
  "get_user_orders
     \<lparr>products =
        [\<lparr>pr_name = ''Red Shirt'', pr_price = 10, pr_sizes = [], p_id = IdStr ''p1''\<rparr>],
      orders =
        [\<lparr>o_id = IdStr ''o1'', o_userId = ''u1'',
          o_items = [\<lparr>productId = IdStr ''p9'', qty = 1\<rparr>]\<rparr>]\<rparr>
     ''u1'' 10 0 =
   Inr \<lparr>data = [], page = \<lparr>page_next = 10, page_limit = 0, page_previous = 0\<rparr>\<rparr>"
  by (simp add: get_user_orders_returns aggregate_def limit_stage_def skip_stage_def
      user_groups_def pipeline_defs envelope_def)

text \<open>
  C3, amended. An order whose items were all discarded by the join is absent from the
  answer: no row of it reaches \<^verbatim>\<open>$group\<close>, which opens a group only for the \<^verbatim>\<open>_id\<close> of
  a row it reads. With \<^verbatim>\<open>_id\<close> unique among the orders, no group of the pipeline's
  output has the order's \<^verbatim>\<open>_id\<close>, and the answer is the one the store gives without
  the order.
\<close>

theorem emptied_order_absent:
  assumes "1 \<le> limit" and "0 \<le> offset"
    and "d \<in> set (orders st)"
    and "\<forall>it \<in> set (o_items d). \<not> has_product (products st) it"
    and "\<forall>d' \<in> set (orders st). o_id d' = o_id d \<longrightarrow> d' = d"
  shows "o_id d \<notin> g_id ` set (aggregate st user_id limit offset) \<and>
         get_user_orders st user_id limit offset =
           Inr (envelope (map public_order (aggregate st user_id limit offset)) limit offset) \<and>
         get_user_orders st user_id limit offset =
           get_user_orders (st\<lparr>orders := filter (\<lambda>d'. d' \<noteq> d) (orders st)\<rparr>)
             user_id limit offset"
proof (intro conjI)
  have none: "order_rows (products st) d = []"
    using assms(4) by (simp add: order_rows_unmatched)
  show "o_id d \<notin> g_id ` set (aggregate st user_id limit offset)"
  proof
    assume "o_id d \<in> g_id ` set (aggregate st user_id limit offset)"
    then have "o_id d \<in> g_id ` set (user_groups st user_id)"
      using aggregate_subset by blast
    then have "o_id d \<in> o_id ` set (joined_rows st user_id)"
      by (simp add: user_groups_def group_by_id_ids)
    then obtain r d' where "d' \<in> set (match_userId user_id (orders st))"
      and r: "r \<in> set (order_rows (products st) d')" and "o_id r = o_id d"
      by (auto simp: joined_rows_concat)
    then have "d' \<in> set (orders st)" and "o_id d' = o_id d"
      using order_rows_id by (auto simp: match_userId_def)
    with assms(5) have "d' = d" by blast
    with r none show False by simp
  qed
  show "get_user_orders st user_id limit offset =
      Inr (envelope (map public_order (aggregate st user_id limit offset)) limit offset)"
    using get_user_orders_returns [OF assms(1,2)] .
  show "get_user_orders st user_id limit offset =
      get_user_orders (st\<lparr>orders := filter (\<lambda>d'. d' \<noteq> d) (orders st)\<rparr>) user_id limit offset"
  proof (rule joined_rows_cong [symmetric])
    show "concat (map (order_rows (products st))
             (match_userId user_id
               (orders (st\<lparr>orders := filter (\<lambda>d'. d' \<noteq> d) (orders st)\<rparr>)))) =
          concat (map (order_rows (products st)) (match_userId user_id (orders st)))"
      using joined_rows_without [of "orders st" "\<lambda>d'. d' \<noteq> d" "products st" user_id] none
      by simp
  qed simp
qed

theorem emptied_order_absent_witness:
  "(1::int) \<le> 10 \<and> (0::int) \<le> 0 \<and>
   \<lparr>o_id = IdOid (ObjectId ''65f1b0000000000000000002''), o_userId = ''u1'',
     o_items = [\<lparr>productId = IdStr ''p9'', qty = 4\<rparr>]\<rparr> \<in> set (orders example_store) \<and>
   \<not> has_product (products example_store) \<lparr>productId = IdStr ''p9'', qty = 4\<rparr> \<and>
   distinct (map o_id (orders example_store)) \<and>
   IdOid (ObjectId ''65f1b0000000000000000002'')
     \<notin> g_id ` set (aggregate example_store ''u1'' 10 0) \<and>
   get_user_orders example_store ''u1'' 10 0 = Inr example_page \<and>
   get_user_orders
     (example_store\<lparr>orders :=
        filter (\<lambda>d'. d' \<noteq> \<lparr>o_id = IdOid (ObjectId ''65f1b0000000000000000002''),
                               o_userId = ''u1'',
                               o_items = [\<lparr>productId = IdStr ''p9'', qty = 4\<rparr>]\<rparr>)
          (orders example_store)\<rparr>)
     ''u1'' 10 0 = Inr example_page"
proof -
  let ?d = "\<lparr>o_id = IdOid (ObjectId ''65f1b0000000000000000002''), o_userId = ''u1'',
     o_items = [\<lparr>productId = IdStr ''p9'', qty = 4\<rparr>]\<rparr>"
  have 1: "?d \<in> set (orders example_store)" by (simp add: example_store_def)
  have 2: "\<not> has_product (products example_store) \<lparr>productId = IdStr ''p9'', qty = 4\<rparr>"
    by (simp add: example_store_def has_product_def)
  have 3: "distinct (map o_id (orders example_store))" by (simp add: example_store_def)
  have 4: "\<forall>it \<in> set (o_items ?d). \<not> has_product (products example_store) it"
    using 2 by simp
  have 5: "\<forall>d' \<in> set (orders example_store). o_id d' = o_id ?d \<longrightarrow> d' = ?d"
    by (simp add: example_store_def)
  from emptied_order_absent [of 10 0 ?d example_store "''u1''", OF _ _ 1 4 5] example_response
  show ?thesis using 1 2 3 by simp
qed



text \<open>
  C7. \<^verbatim>\<open>list_products\<close> with a \<^verbatim>\<open>name\<close> (and no \<^verbatim>\<open>size\<close>) returns the products whose name
  contains the text without regard to case, in the store's order, within the window
  of \<open>offset\<close> and \<open>limit\<close>: the escaped text is a pattern that stands for the text
  itself, and the search is unanchored. With \<^verbatim>\<open>name=shirt\<close> the products
  \<open>Red Shirt\<close> and \<open>shirt-style-2\<close> are returned and \<open>Pants\<close> is not.
\<close>

theorem name_filter_is_substring_ignoring_case:
  assumes "1 \<le> limit" and "0 \<le> offset"
  shows "list_products st (Some n) None limit offset =
           Inr (envelope
                  (map public_product
                     (take (nat limit)
                        (drop (nat offset)
                           (filter (\<lambda>p. contains_ignoring_case n (pr_name p)) (products st)))))
                  limit offset)"
proof -
  have "find_query (build_query (Some n) None) (products st) =
          Inr (filter (\<lambda>p. contains_ignoring_case n (pr_name p)) (products st))"
    by (simp add: find_query_build truthy_def size_matches_def)
  from list_products_returns [OF assms this] show ?thesis
    by (simp add: limit_stage_def skip_stage_def)
qed

theorem name_filter_is_substring_ignoring_case_witness:
  "(1::int) \<le> 10 \<and> (0::int) \<le> 0 \<and>
   map pr_name (products example_store) = [''Red Shirt'', ''shirt-style-2'', ''Pants''] \<and>
   contains_ignoring_case ''shirt'' ''Red Shirt'' \<and>
   contains_ignoring_case ''shirt'' ''shirt-style-2'' \<and>
   \<not> contains_ignoring_case ''shirt'' ''Pants'' \<and>
   list_products example_store (Some ''shirt'') None 10 0 =
     Inr \<lparr>data =
            [\<lparr>pd_oid = None, pd_id = Some ''p1'', pd_name = ''Red Shirt'', pd_price = 10,
              pd_sizes = None\<rparr>,
             \<lparr>pd_oid = None, pd_id = Some ''65f1a0000000000000000002'',
              pd_name = ''shirt-style-2'', pd_price = 5 / 2, pd_sizes = None\<rparr>],
          page = \<lparr>page_next = 10, page_limit = 2, page_previous = 0\<rparr>\<rparr>"
proof -
  have c: "contains_ignoring_case ''shirt'' ''Red Shirt''"
    "contains_ignoring_case ''shirt'' ''shirt-style-2''"
    "\<not> contains_ignoring_case ''shirt'' ''Pants''"
    by (simp_all add: contains_search to_lower_def upper_letters_def lower_letters_def)
  from name_filter_is_substring_ignoring_case [of 10 0 example_store "''shirt''"] c
  show ?thesis by (simp add: example_store_def public_defs)
qed

text \<open>
  C9. The scenario: when \<open>u1\<close> has exactly one order, with the items
  \<^verbatim>\<open>[{productId: "p1", qty: 2}]\<close>, and the product \<open>p1\<close> has the price 10, the answer to
  \<^verbatim>\<open>get_user_orders("u1")\<close> with the default window is that order with \<^verbatim>\<open>total\<close> 20,
  \<^verbatim>\<open>items[0].productDetails.id\<close> equal to \<open>p1\<close> and no \<^verbatim>\<open>sizes\<close>. In every answer, every
  order has no \<^verbatim>\<open>_id\<close>, and every \<^verbatim>\<open>productDetails\<close> has no \<^verbatim>\<open>_id\<close> and no \<^verbatim>\<open>sizes\<close> and
  carries under \<^verbatim>\<open>id\<close> the text of the \<^verbatim>\<open>_id\<close> of the joined product.
\<close>

theorem scenario_one_order_one_product:
  "(match_userId ''u1'' (orders st) = [d] \<and>
    o_items d = [\<lparr>productId = IdStr ''p1'', qty = 2\<rparr>] \<and>
    filter (\<lambda>p. p_id p = IdStr ''p1'') (products st) = [p] \<and> pr_price p = 10 \<longrightarrow>
    get_user_orders st ''u1'' 10 0 =
      Inr \<lparr>data =
             [\<lparr>od_oid = None, od_id = Some (py_str (o_id d)),
               od_items =
                 [\<lparr>productId = IdStr ''p1'', qty = 2,
                   productDetails = \<lparr>pd_oid = None, pd_id = Some ''p1'', pd_name = pr_name p,
                     pd_price = 10, pd_sizes = None\<rparr>\<rparr>],
               od_total = 20\<rparr>],
           page = \<lparr>page_next = 10, page_limit = 1, page_previous = 0\<rparr>\<rparr>) \<and>
   (get_user_orders st' user_id limit offset = Inr resp \<longrightarrow>
    (\<forall>ord \<in> set (data resp).
       od_oid ord = None \<and>
       (\<forall>it \<in> set (od_items ord).
          pd_oid (productDetails it) = None \<and> pd_sizes (productDetails it) = None \<and>
          (\<exists>q \<in> set (products st').
             p_id q = productId it \<and> pd_id (productDetails it) = Some (py_str (p_id q))))))"
proof (rule conjI; rule impI)
  assume a: "match_userId ''u1'' (orders st) = [d] \<and>
    o_items d = [\<lparr>productId = IdStr ''p1'', qty = 2\<rparr>] \<and>
    filter (\<lambda>p. p_id p = IdStr ''p1'') (products st) = [p] \<and> pr_price p = 10"
  then have "p \<in> set (filter (\<lambda>p. p_id p = IdStr ''p1'') (products st))" by simp
  then have pid: "p_id p = IdStr ''p1''" by simp
  have "user_groups st ''u1'' =
     [\<lparr>g_id = o_id d,
       g_items = [\<lparr>productId = IdStr ''p1'', qty = 2, productDetails = p\<rparr>],
       g_total = 20\<rparr>]"
    using a by (simp add: user_groups_def joined_rows_concat order_rows_def group_by_id_def
        line_total_def)
  then show "get_user_orders st ''u1'' 10 0 =
      Inr \<lparr>data =
             [\<lparr>od_oid = None, od_id = Some (py_str (o_id d)),
               od_items =
                 [\<lparr>productId = IdStr ''p1'', qty = 2,
                   productDetails = \<lparr>pd_oid = None, pd_id = Some ''p1'', pd_name = pr_name p,
                     pd_price = 10, pd_sizes = None\<rparr>\<rparr>],
               od_total = 20\<rparr>],
           page = \<lparr>page_next = 10, page_limit = 1, page_previous = 0\<rparr>\<rparr>"
    using a pid
    by (simp add: get_user_orders_returns aggregate_def limit_stage_def skip_stage_def
        public_defs)
next
  assume r: "get_user_orders st' user_id limit offset = Inr resp"
  show "\<forall>ord \<in> set (data resp).
       od_oid ord = None \<and>
       (\<forall>it \<in> set (od_items ord).
          pd_oid (productDetails it) = None \<and> pd_sizes (productDetails it) = None \<and>
          (\<exists>q \<in> set (products st').
             p_id q = productId it \<and> pd_id (productDetails it) = Some (py_str (p_id q))))"
  proof
    fix ord
    assume o: "ord \<in> set (data resp)"
    from returned_orders [OF r] o obtain g
      where g: "g \<in> set (aggregate st' user_id limit offset)" and og: "ord = public_order g"
      by (auto simp: envelope_def)
    from g aggregate_subset have gu: "g \<in> set (user_groups st' user_id)" by blast
    have "pd_oid (productDetails it) = None \<and> pd_sizes (productDetails it) = None \<and>
          (\<exists>q \<in> set (products st').
             p_id q = productId it \<and> pd_id (productDetails it) = Some (py_str (p_id q)))"
      if i: "it \<in> set (od_items ord)" for it
    proof -
      from i og obtain it0 where i0: "it0 \<in> set (g_items g)" and ii: "it = public_item it0"
        by (auto simp: public_order_def)
      from group_items_product [OF gu i0] show ?thesis
        using ii by (auto simp: public_item_def public_product_def)
    qed
    then show "od_oid ord = None \<and>
       (\<forall>it \<in> set (od_items ord).
          pd_oid (productDetails it) = None \<and> pd_sizes (productDetails it) = None \<and>
          (\<exists>q \<in> set (products st').
             p_id q = productId it \<and> pd_id (productDetails it) = Some (py_str (p_id q))))"
      using og by (simp add: public_order_def)
  qed
qed

theorem scenario_one_order_one_product_witness:
  "match_userId ''u1'' (orders scenario_store) =
     [\<lparr>o_id = IdOid (ObjectId ''65f1b0000000000000000009''), o_userId = ''u1'',
       o_items = [\<lparr>productId = IdStr ''p1'', qty = 2\<rparr>]\<rparr>] \<and>
   filter (\<lambda>p. p_id p = IdStr ''p1'') (products scenario_store) =
     [\<lparr>pr_name = ''Red Shirt'', pr_price = 10,
       pr_sizes = [\<lparr>sz_size = ''M'', sz_quantity = 3\<rparr>], p_id = IdStr ''p1''\<rparr>] \<and>
   get_user_orders scenario_store ''u1'' 10 0 =
     Inr \<lparr>data =
            [\<lparr>od_oid = None, od_id = Some ''65f1b0000000000000000009'',
              od_items =
                [\<lparr>productId = IdStr ''p1'', qty = 2,
                  productDetails = \<lparr>pd_oid = None, pd_id = Some ''p1'',
                    pd_name = ''Red Shirt'', pd_price = 10, pd_sizes = None\<rparr>\<rparr>],
              od_total = 20\<rparr>],
          page = \<lparr>page_next = 10, page_limit = 1, page_previous = 0\<rparr>\<rparr>"
proof -
  let ?d = "\<lparr>o_id = IdOid (ObjectId ''65f1b0000000000000000009''), o_userId = ''u1'',
       o_items = [\<lparr>productId = IdStr ''p1'', qty = 2\<rparr>]\<rparr>"
  let ?p = "\<lparr>pr_name = ''Red Shirt'', pr_price = 10,
       pr_sizes = [\<lparr>sz_size = ''M'', sz_quantity = 3\<rparr>], p_id = IdStr ''p1''\<rparr>"
  have 1: "match_userId ''u1'' (orders scenario_store) = [?d]"
    by (simp add: scenario_store_def match_userId_def)
  have 2: "filter (\<lambda>p. p_id p = IdStr ''p1'') (products scenario_store) = [?p]"
    by (simp add: scenario_store_def)
  from scenario_one_order_one_product [of scenario_store ?d ?p] 1 2 show ?thesis by simp
qed

text \<open>
  C10. \<^verbatim>\<open>create_order\<close> stores the \<^verbatim>\<open>productId\<close> of an item as a string and
  \<^verbatim>\<open>create_product\<close> gives every product an \<^verbatim>\<open>ObjectId\<close> as \<^verbatim>\<open>_id\<close>, and the two are
  never equal. So in every store built from the empty one by the two \<^verbatim>\<open>POST\<close>
  endpoints, every row of every user misses the join, and \<^verbatim>\<open>get_user_orders\<close> returns an
  empty \<^verbatim>\<open>data\<close> for every user.
\<close>

theorem posted_orders_never_join:
  assumes "populated st" and "1 \<le> limit" and "0 \<le> offset"
  shows "(\<forall>r \<in> set (unwind_items (match_userId user_id (orders st))).
            \<not> has_product (products st) (o_items r)) \<and>
         get_user_orders st user_id limit offset =
           Inr \<lparr>data = [],
                page = \<lparr>page_next = offset + limit, page_limit = 0,
                        page_previous = max 0 (offset - limit)\<rparr>\<rparr>"
proof
  note ids = populated_ids [OF assms(1)]
  have miss: "\<not> has_product (products st) it" if "d \<in> set (orders st)" "it \<in> set (o_items d)"
    for d it
  proof -
    from ids that obtain s where "productId it = IdStr s" by blast
    with ids show ?thesis by (auto simp: has_product_def list_ex_iff)
  qed
  show "\<forall>r \<in> set (unwind_items (match_userId user_id (orders st))).
          \<not> has_product (products st) (o_items r)"
    using miss by (auto simp: unwind_items_concat unwind_one_def match_userId_def)
  have "order_rows (products st) d = []" if "d \<in> set (orders st)" for d
    using miss that by (simp add: order_rows_unmatched)
  then have "joined_rows st user_id = []"
    by (auto simp: joined_rows_concat match_userId_def)
  then have "aggregate st user_id limit offset = []"
    by (simp add: aggregate_def user_groups_def group_by_id_def limit_stage_def skip_stage_def)
  then show "get_user_orders st user_id limit offset =
           Inr \<lparr>data = [],
                page = \<lparr>page_next = offset + limit, page_limit = 0,
                        page_previous = max 0 (offset - limit)\<rparr>\<rparr>"
    using get_user_orders_returns [OF assms(2,3)] by (simp add: envelope_def)
qed

theorem posted_orders_never_join_witness:
  "fst (create_product (ObjectId ''65f1a0000000000000000001'')
          \<lparr>pr_name = ''Red Shirt'', pr_price = 10,
           pr_sizes = [\<lparr>sz_size = ''M'', sz_quantity = 3\<rparr>]\<rparr>
          \<lparr>products = [], orders = []\<rparr>) = ''65f1a0000000000000000001'' \<and>
   populated posted_store \<and> (1::int) \<le> 10 \<and> (0::int) \<le> 0 \<and>
   orders posted_store =
     [\<lparr>o_id = IdOid (ObjectId ''65f1b0000000000000000001''), o_userId = ''u1'',
       o_items = [\<lparr>productId = IdStr ''65f1a0000000000000000001'', qty = 2\<rparr>]\<rparr>] \<and>
   map p_id (products posted_store) = [IdOid (ObjectId ''65f1a0000000000000000001'')] \<and>
   get_user_orders posted_store ''u1'' 10 0 =
     Inr \<lparr>data = [], page = \<lparr>page_next = 10, page_limit = 0, page_previous = 0\<rparr>\<rparr>"
proof -
  have p: "populated posted_store"
    unfolding posted_store_def
    by (intro populated.order populated.product populated.empty)
      (simp_all add: create_product_def)
  from posted_orders_never_join [OF p, of 10 0 "''u1''"] p show ?thesis
    by (simp add: posted_store_def create_product_def create_order_def order_item_dict_def)
qed


end
